theory Spec2Isabelle
  imports Complex_Main "HOL-Library.Word"
begin

unbundle bit_operations_syntax

section \<open>Strings and numbers of the host language\<close>

text \<open>
  The two modules are JavaScript. A JavaScript string is modelled as a \<^typ>\<open>string\<close>: a list
  of 8-bit characters, standing for the code units U+0000 .. U+00FF. A property that may
  be missing from an object is an \<^typ>\<open>'a option\<close>, \<^term>\<open>None\<close> standing for
  \<^verbatim>\<open>undefined\<close>. Every exception of the source is a \<^verbatim>\<open>TypeError\<close> (reading a property of
  \<^verbatim>\<open>undefined\<close>); a function that can raise it returns a sum, the error on the left.
  The calls of the loggers (\<^verbatim>\<open>adgLogger.logInfo\<close>, \<^verbatim>\<open>utils.logInfo\<close>) change no result and are
  left out.
\<close>

datatype error = TypeError

text \<open>\<^verbatim>\<open>Number.prototype.toString(16)\<close> on an integer: lower-case digits, a minus sign for
  a negative number, and \<^verbatim>\<open>"NaN"\<close> for not-a-number (\<^term>\<open>None\<close>).\<close>

definition hexDigits :: string where
  "hexDigits = ''0123456789abcdef''"

fun digits16 :: "nat \<Rightarrow> string" where
  "digits16 n = (if n < 16 then [hexDigits ! n] else digits16 (n div 16) @ [hexDigits ! (n mod 16)])"

declare digits16.simps [simp del]

definition toString16 :: "int option \<Rightarrow> string" where
  "toString16 v =
     (case v of
        None \<Rightarrow> ''NaN''
      | Some i \<Rightarrow> if i < 0 then CHR ''-'' # digits16 (nat (- i)) else digits16 (nat i))"

text \<open>\<^verbatim>\<open>parseInt(str, 16)\<close>: leading white space is skipped, then an optional sign, then an
  optional \<^verbatim>\<open>0x\<close> prefix; the longest run of hexadecimal digits that follows is the value,
  and there is no value (\<^verbatim>\<open>NaN\<close>) when that run is empty. The result is exact for the
  three-character strings \<^verbatim>\<open>getSrcId\<close> passes; minus zero prints as \<^verbatim>\<open>"0"\<close>, like zero.\<close>

definition isWhiteSpace :: "char \<Rightarrow> bool" where
  "isWhiteSpace c \<longleftrightarrow> c \<in> set [CHR 0x09, CHR 0x0A, CHR 0x0B, CHR 0x0C, CHR 0x0D, CHR 0x20, CHR 0xA0]"

definition hexValue :: "char \<Rightarrow> nat option" where
  "hexValue c =
     map_of (zip ''0123456789abcdefABCDEF''
                 [0, 1, 2, 3, 4, 5, 6, 7, 8, 9, 10, 11, 12, 13, 14, 15, 10, 11, 12, 13, 14, 15]) c"

fun parseHexDigits :: "string \<Rightarrow> nat option \<Rightarrow> nat option" where
  "parseHexDigits [] acc = acc"
| "parseHexDigits (c # cs) acc =
     (case hexValue c of
        None \<Rightarrow> acc
      | Some d \<Rightarrow> parseHexDigits cs (Some (16 * (case acc of None \<Rightarrow> 0 | Some a \<Rightarrow> a) + d)))"

definition stripSign :: "string \<Rightarrow> bool \<times> string" where
  "stripSign s =
     (case s of
        [] \<Rightarrow> (False, s)
      | c # cs \<Rightarrow> if c = CHR ''-'' then (True, cs) else if c = CHR ''+'' then (False, cs) else (False, s))"

definition stripHexPrefix :: "string \<Rightarrow> string" where
  "stripHexPrefix s =
     (case s of
        c # d # cs \<Rightarrow> if c = CHR ''0'' \<and> (d = CHR ''x'' \<or> d = CHR ''X'') then cs else s
      | _ \<Rightarrow> s)"

definition parseInt16 :: "string \<Rightarrow> int option" where
  "parseInt16 str =
     (let (neg, s) = stripSign (dropWhile isWhiteSpace str)
      in case parseHexDigits (stripHexPrefix s) None of
           None \<Rightarrow> None
         | Some n \<Rightarrow> Some (if neg then - int n else int n))"

text \<open>\<^verbatim>\<open>String.prototype.toUpperCase\<close> on the letters a to z. Of the other characters up to
  U+00FF none has an upper-case form that contains U, S or D, so they are left alone.\<close>

definition toUpperChar :: "char \<Rightarrow> char" where
  "toUpperChar c =
     (case map_of (zip ''abcdefghijklmnopqrstuvwxyz'' ''ABCDEFGHIJKLMNOPQRSTUVWXYZ'') c of
        None \<Rightarrow> c
      | Some u \<Rightarrow> u)"

definition toUpperCase :: "string \<Rightarrow> string" where
  "toUpperCase s = map toUpperChar s"

section \<open>The identity module (novatiqIdSystem)\<close>

subsection \<open>getSrcId\<close>

text \<open>\<^verbatim>\<open>configParams.sourceid\<close> is \<^verbatim>\<open>undefined\<close>, \<^verbatim>\<open>null\<close> or a string.\<close>

datatype 'a optional = Undefined | Null | Defined 'a

record configParams =
  sourceid :: "string optional"

definition isHex :: "string \<Rightarrow> bool" where
  "isHex str = (let a = parseInt16 str in toString16 a = str)"

definition getSrcId :: "configParams \<Rightarrow> string" where
  "getSrcId configParams =
     (case sourceid configParams of
        Undefined \<Rightarrow> ''000''
      | Null \<Rightarrow> ''000''
      | Defined s \<Rightarrow>
          if s = '''' then ''000''
          else if length s < 3 \<or> length s > 3 then ''001''
          else if isHex s = False then ''002''
          else s)"

subsection \<open>snowflakeId\<close>

text \<open>
  \<^verbatim>\<open>[1e7] + -1e3 + -4e3 + -8e3 + -1e11 + 1e3\<close> concatenates the decimal forms of its six
  numbers, the array \<^verbatim>\<open>[1e7]\<close> turning the sum into a string concatenation.
\<close>

definition placeholderPattern :: string where
  "placeholderPattern = ''10000000'' @ ''-1000'' @ ''-4000'' @ ''-8000'' @ ''-100000000000'' @ ''1000''"

text \<open>
  \<^verbatim>\<open>(placeholder ^ Math.random() * 16 >> placeholder / 4).toString(16)\<close>, for a one-digit
  placeholder. \<^verbatim>\<open>>>\<close> truncates its left operand \<^verbatim>\<open>Math.random() * 16\<close>, a number from 0
  up to but not 16, to an integer \<open>r\<close> from 0 to 15, the \<^typ>\<open>4 word\<close> here, and its right
  operand \<^verbatim>\<open>placeholder / 4\<close> to a shift count; \<^verbatim>\<open>^\<close> is the exclusive or of 32-bit integers.
\<close>

definition digitValue :: "char \<Rightarrow> nat" where
  "digitValue c = of_char c - 48"

definition snowflakeDigit :: "char \<Rightarrow> 4 word \<Rightarrow> string" where
  "snowflakeDigit placeholder r =
     (let p = (of_nat (digitValue placeholder) :: 32 word);
          count = (digitValue placeholder div 4) mod 32
      in toString16 (Some (sint (p XOR signed_drop_bit count (ucast r)))))"

text \<open>\<^verbatim>\<open>.replace(/[018]/g, snowflakeId)\<close>: every character 0, 1 or 8 is replaced by what the
  callback returns for it; \<open>rnd k\<close> is the draw of the \<open>k\<close>-th call of \<^verbatim>\<open>Math.random\<close>.\<close>

fun replacePlaceholders :: "string \<Rightarrow> (nat \<Rightarrow> 4 word) \<Rightarrow> nat \<Rightarrow> string" where
  "replacePlaceholders [] rnd k = []"
| "replacePlaceholders (c # cs) rnd k =
     (if c \<in> set ''018''
      then snowflakeDigit c (rnd k) @ replacePlaceholders cs rnd (Suc k)
      else c # replacePlaceholders cs rnd k)"

definition snowflakeId :: "(nat \<Rightarrow> 4 word) \<Rightarrow> string" where
  "snowflakeId rnd = replacePlaceholders placeholderPattern rnd 0"

subsection \<open>getId\<close>

text \<open>
  The page's state: \<^verbatim>\<open>window.nlocvalue\<close>, the requests handed to \<^verbatim>\<open>ajax\<close>, and the arguments
  the completion callback \<^verbatim>\<open>cb\<close> has been called with. \<^verbatim>\<open>ajax\<close> is the host's transport: it
  calls the \<^verbatim>\<open>success\<close> handler with the response's status, or else its \<^verbatim>\<open>error\<close> handler.
  \<^verbatim>\<open>getId\<close> registers \<^verbatim>\<open>{ success: onSuccess }\<close> and no \<^verbatim>\<open>error\<close> handler.
\<close>

record ajaxCall =
  ajaxUrl :: string
  ajaxMethod :: string
  ajaxWithCredentials :: bool

record idObject =
  idValue :: string

record page =
  nlocvalue :: int
  ajaxCalls :: "ajaxCall list"
  cbCalls :: "idObject list"

datatype transportOutcome = Success int | Failure

definition onSuccess :: "string \<Rightarrow> int \<Rightarrow> page \<Rightarrow> page" where
  "onSuccess novatiqId syncrc pg =
     (let pg0 = pg\<lparr>nlocvalue := 0\<rparr>;
          pg1 = (if syncrc = 200 then pg0\<lparr>nlocvalue := 1\<rparr>
                 else if syncrc = 204 then pg0\<lparr>nlocvalue := 2\<rparr>
                 else pg0)
      in pg1\<lparr>cbCalls := cbCalls pg1 @ [\<lparr>idValue = novatiqId\<rparr>]\<rparr>)"

definition getNlocvalue :: "string \<Rightarrow> transportOutcome \<Rightarrow> page \<Rightarrow> page" where
  "getNlocvalue novatiqId outcome pg =
     (let url = ''https://spadsync.com/sync?sptoken='' @ novatiqId;
          sent = pg\<lparr>ajaxCalls := ajaxCalls pg @
                   [\<lparr>ajaxUrl = url, ajaxMethod = ''GET'', ajaxWithCredentials = False\<rparr>]\<rparr>
      in case outcome of
           Success syncrc \<Rightarrow> onSuccess novatiqId syncrc sent
         | Failure \<Rightarrow> sent)"

text \<open>\<^verbatim>\<open>getId(config).callback(cb)\<close>: the identifier is generated, then synchronised.\<close>

definition getId :: "(nat \<Rightarrow> 4 word) \<Rightarrow> transportOutcome \<Rightarrow> page \<Rightarrow> page" where
  "getId rnd outcome pg = getNlocvalue (snowflakeId rnd) outcome pg"

section \<open>The bid adapter (adgenerationBidAdapter)\<close>

subsection \<open>getCurrencyType\<close>

text \<open>The configuration store, read by \<^verbatim>\<open>config.getConfig('currency.adServerCurrency')\<close>:
  a currency code, or nothing when the option is unset.\<close>

record config =
  adServerCurrency :: "string option"

definition getCurrencyType :: "config \<Rightarrow> string" where
  "getCurrencyType cfg =
     (case adServerCurrency cfg of
        None \<Rightarrow> ''JPY''
      | Some c \<Rightarrow> if c \<noteq> '''' \<and> toUpperCase c = ''USD'' then ''USD'' else ''JPY'')"

subsection \<open>String operations\<close>

fun startsWith :: "string \<Rightarrow> string \<Rightarrow> bool" where
  "startsWith s [] = True"
| "startsWith [] (p # ps) = False"
| "startsWith (c # cs) (p # ps) = (c = p \<and> startsWith cs ps)"

text \<open>\<^verbatim>\<open>indexOf\<close> and \<^verbatim>\<open>lastIndexOf\<close> give the first and the last position of a text, or -1.\<close>

fun indexOf :: "string \<Rightarrow> string \<Rightarrow> int" where
  "indexOf [] p = (if p = [] then 0 else - 1)"
| "indexOf (c # cs) p =
     (if startsWith (c # cs) p then 0
      else let i = indexOf cs p in if i = - 1 then - 1 else i + 1)"

fun lastIndexOf :: "string \<Rightarrow> string \<Rightarrow> int" where
  "lastIndexOf [] p = (if p = [] then 0 else - 1)"
| "lastIndexOf (c # cs) p =
     (let i = lastIndexOf cs p
      in if i \<noteq> - 1 then i + 1 else if startsWith (c # cs) p then 0 else - 1)"

text \<open>\<^verbatim>\<open>substr(start, length)\<close>: \<open>length\<close> characters from position \<open>start\<close> on (a negative
  \<open>start\<close> counts from the end), as many as the string has.\<close>

definition substr :: "string \<Rightarrow> int \<Rightarrow> int \<Rightarrow> string" where
  "substr s start len =
     (let size = int (length s);
          from = (if start < 0 then max (size + start) 0 else min start size);
          n = min (max len 0) (size - from)
      in take (nat n) (drop (nat from) s))"

text \<open>\<^verbatim>\<open>s.replace(p, '')\<close> for a text \<open>p\<close>: its first occurrence is removed.\<close>

fun removeFirst :: "string \<Rightarrow> string \<Rightarrow> string" where
  "removeFirst [] p = []"
| "removeFirst (c # cs) p =
     (if startsWith (c # cs) p then drop (length p) (c # cs) else c # removeFirst cs p)"

text \<open>\<^verbatim>\<open>vastXml.replace(/\r?\n/g, '')\<close>: every line feed goes, with the carriage return
  right before it when there is one.\<close>

fun stripNewlines :: "string \<Rightarrow> string" where
  "stripNewlines [] = []"
| "stripNewlines [c] = (if c = CHR 0x0A then [] else [c])"
| "stripNewlines (c # d # cs) =
     (if c = CHR 0x0D \<and> d = CHR 0x0A then stripNewlines cs
      else if c = CHR 0x0A then stripNewlines (d # cs)
      else c # stripNewlines (d # cs))"

text \<open>
  The replacement text of \<^verbatim>\<open>replace\<close> is a template: \<^verbatim>\<open>$$\<close> stands for a dollar sign, \<^verbatim>\<open>$&\<close>
  for the matched text, \<^verbatim>\<open>$`\<close> for the text preceding the match and \<^verbatim>\<open>$'\<close> for the text following
  it. The pattern here has no capture group, so a dollar sign before anything else stands
  for itself.
\<close>

fun getSubstitution :: "string \<Rightarrow> string \<Rightarrow> string \<Rightarrow> string \<Rightarrow> string" where
  "getSubstitution matched preceding following [] = []"
| "getSubstitution matched preceding following [c] = [c]"
| "getSubstitution matched preceding following (c # d # cs) =
     (if c = CHR ''$'' \<and> d = CHR ''$'' then CHR ''$'' # getSubstitution matched preceding following cs
      else if c = CHR ''$'' \<and> d = CHR ''&'' then matched @ getSubstitution matched preceding following cs
      else if c = CHR ''$'' \<and> d = CHR 0x60 then preceding @ getSubstitution matched preceding following cs
      else if c = CHR ''$'' \<and> d = CHR 0x27 then following @ getSubstitution matched preceding following cs
      else c # getSubstitution matched preceding following (d # cs))"

text \<open>The length of the match of \<^verbatim>\<open>/<\/\s?body>/\<close> at the start of a text, if it matches
  there: \<^verbatim>\<open></\<close>, at most one white-space character, \<^verbatim>\<open>body>\<close>.\<close>

definition closeBodyMatch :: "string \<Rightarrow> nat option" where
  "closeBodyMatch s =
     (if startsWith s ''</body>'' then Some 7
      else case s of
             a # b # sp # rest \<Rightarrow>
               if a = CHR ''<'' \<and> b = CHR ''/'' \<and> isWhiteSpace sp \<and> startsWith rest ''body>''
               then Some 8 else None
           | _ \<Rightarrow> None)"

text \<open>\<^verbatim>\<open>ad.replace(/<\/\s?body>/, template)\<close>: the first match is replaced; \<open>preceding\<close> is the
  text already passed.\<close>

fun replaceCloseBody :: "string \<Rightarrow> string \<Rightarrow> string \<Rightarrow> string" where
  "replaceCloseBody preceding [] template = []"
| "replaceCloseBody preceding (c # cs) template =
     (case closeBodyMatch (c # cs) of
        Some n \<Rightarrow>
          getSubstitution (take n (c # cs)) preceding (drop n (c # cs)) template @ drop n (c # cs)
      | None \<Rightarrow> c # replaceCloseBody (preceding @ [c]) cs template)"

text \<open>\<^verbatim>\<open>JSON.stringify\<close> of a string: quoted, with the quote, the backslash and the control
  characters escaped.\<close>

definition jsonEscape :: "char \<Rightarrow> string" where
  "jsonEscape c =
     (if c = CHR 0x08 then [CHR 0x5C, CHR ''b'']
      else if c = CHR 0x09 then [CHR 0x5C, CHR ''t'']
      else if c = CHR 0x0A then [CHR 0x5C, CHR ''n'']
      else if c = CHR 0x0C then [CHR 0x5C, CHR ''f'']
      else if c = CHR 0x0D then [CHR 0x5C, CHR ''r'']
      else if c = CHR 0x22 then [CHR 0x5C, CHR 0x22]
      else if c = CHR 0x5C then [CHR 0x5C, CHR 0x5C]
      else if (of_char c :: nat) < 32
        then [CHR 0x5C, CHR ''u'', CHR ''0'', CHR ''0'',
              hexDigits ! (of_char c div 16), hexDigits ! (of_char c mod 16)]
      else [c])"

definition jsonString :: "string \<Rightarrow> string" where
  "jsonString s = CHR 0x22 # concat (map jsonEscape s) @ [CHR 0x22]"

text \<open>\<^verbatim>\<open>encodeURIComponent\<close>: letters, digits and \<^verbatim>\<open>-_.!~*'()\<close> stay; any other character
  becomes the percent-escaped bytes of its UTF-8 form.\<close>

definition percentByte :: "nat \<Rightarrow> string" where
  "percentByte n = [CHR ''%'', ''0123456789ABCDEF'' ! (n div 16), ''0123456789ABCDEF'' ! (n mod 16)]"

definition encodeChar :: "char \<Rightarrow> string" where
  "encodeChar c =
     (if c \<in> set (''ABCDEFGHIJKLMNOPQRSTUVWXYZabcdefghijklmnopqrstuvwxyz0123456789-_.!~*()'' @ [CHR 0x27])
      then [c]
      else if (of_char c :: nat) < 128 then percentByte (of_char c)
      else percentByte (192 + of_char c div 64) @ percentByte (128 + of_char c mod 64))"

definition encodeURIComponent :: "string \<Rightarrow> string" where
  "encodeURIComponent s = concat (map encodeChar s)"

subsection \<open>Bid requests and server requests\<close>

text \<open>
  The adapter's parameters of a bid request, \<^verbatim>\<open>bid.params\<close>: \<^verbatim>\<open>id\<close> (the placement id),
  \<^verbatim>\<open>debug\<close>, \<^verbatim>\<open>debug_url\<close> and \<^verbatim>\<open>marginTop\<close>. What else a bid request, an impression and the
  ORTB request hold is passed through untouched; it is the type parameter of each record.
\<close>

record params =
  params_id :: "string option"
  debug :: "bool option"
  debug_url :: "string option"
  marginTop :: "string option"

record 'b bidRequest =
  bidId :: string
  bid_params :: params
  bid_rest :: 'b

record impExt =
  ext_params :: "params option"

record 'i imp =
  imp_id :: string
  ext :: "impExt option"
  imp_rest :: 'i

record ('i, 'o) ortb =
  imp :: "'i imp list"
  otherParams :: 'o

record ('i, 'o) payload =
  locationId :: string
  posall :: string
  sdktype :: string
  hb :: string
  t_format :: string
  payload_currency :: string
  pbver :: string
  sdkname :: string
  adapterver :: string
  imark :: string
  pb_ortb2 :: "('i, 'o) ortb"

record options =
  withCredentials :: bool
  crossOrigin :: bool

record ('i, 'o) serverRequest =
  req_method :: string
  req_url :: string
  req_data :: "('i, 'o) payload"
  req_options :: options

definition ADGENE_PREBID_VERSION :: string where
  "ADGENE_PREBID_VERSION = ''1.6.4.dev''"

definition DEBUG_URL :: string where
  "DEBUG_URL = ''https://api-test.scaleout.jp/adsv/v1''"

definition URL :: string where
  "URL = ''https://d.socdm.com/adsv/v1''"

definition isBidRequestValid :: "'b bidRequest \<Rightarrow> bool" where
  "isBidRequestValid bid =
     (case params_id (bid_params bid) of None \<Rightarrow> False | Some i \<Rightarrow> i \<noteq> [])"

text \<open>Modelled from the spec: the converter library (\<^verbatim>\<open>libraries/ortbConverter\<close>) builds, for
  each bid request of the batch, one impression that carries the request's impression id,
  and wraps the impressions of the batch with the fields of the shared envelope. \<open>media\<close>
  stands for the other fields it gives an impression, \<open>envelope\<close> for those of the request.\<close>

definition buildImp :: "('b bidRequest \<Rightarrow> 'i) \<Rightarrow> 'b bidRequest \<Rightarrow> 'i imp" where
  "buildImp media bidRequest =
     \<lparr>imp_id = bidId bidRequest, ext = None, imp_rest = media bidRequest\<rparr>"

text \<open>Modelled from the spec: \<^verbatim>\<open>deepSetValue(imp, 'ext.params', value)\<close> of the host's utilities
  stores the value at that path, creating \<^verbatim>\<open>ext\<close> when the impression has none.\<close>

definition deepSetValue_ext_params :: "'i imp \<Rightarrow> params \<Rightarrow> 'i imp" where
  "deepSetValue_ext_params i p =
     i\<lparr>ext := Some (case ext i of
                         None \<Rightarrow> \<lparr>ext_params = Some p\<rparr>
                       | Some e \<Rightarrow> e\<lparr>ext_params := Some p\<rparr>)\<rparr>"

text \<open>The adapter's own hooks of the converter (lines 28 to 36 of the source).\<close>

definition converter_imp :: "('b bidRequest \<Rightarrow> 'i) \<Rightarrow> 'b bidRequest \<Rightarrow> 'i imp" where
  "converter_imp media bidRequest =
     (let i = buildImp media bidRequest in deepSetValue_ext_params i (bid_params bidRequest))"

definition converter_request :: "('r \<Rightarrow> 'o) \<Rightarrow> 'i imp list \<Rightarrow> 'r \<Rightarrow> ('i, 'o) ortb" where
  "converter_request envelope imps bidderRequest =
     \<lparr>imp = imps, otherParams = envelope bidderRequest\<rparr>"

text \<open>Modelled from the spec: \<^verbatim>\<open>converter.toORTB\<close> runs the impression hook on every bid
  request of the batch, in order, and the request hook on the result.\<close>

definition toORTB ::
  "('b bidRequest \<Rightarrow> 'i) \<Rightarrow> ('r \<Rightarrow> 'o) \<Rightarrow> 'b bidRequest list \<Rightarrow> 'r \<Rightarrow> ('i, 'o) ortb" where
  "toORTB media envelope bidRequests bidderRequest =
     converter_request envelope (map (converter_imp media) bidRequests) bidderRequest"

text \<open>Modelled from the spec: \<^verbatim>\<open>getBidIdParameter(key, paramsObj)\<close> of the host's utilities
  gives the parameter under the key, or the empty string when there is none.\<close>

definition getBidIdParameter_id :: "params \<Rightarrow> string" where
  "getBidIdParameter_id p = (case params_id p of None \<Rightarrow> [] | Some i \<Rightarrow> i)"

text \<open>The body of the arrow function that \<^verbatim>\<open>buildRequests\<close> maps over the impressions.
  \<^verbatim>\<open>singleImp?.ext?.params\<close> is \<^verbatim>\<open>undefined\<close> when \<^verbatim>\<open>ext\<close> or \<^verbatim>\<open>params\<close> is missing, and
  \<^verbatim>\<open>customParams.debug\<close> then raises.\<close>

definition customParamsOf :: "'i imp \<Rightarrow> params option" where
  "customParamsOf singleImp = (case ext singleImp of None \<Rightarrow> None | Some e \<Rightarrow> ext_params e)"

definition requestOfImp :: "config \<Rightarrow> 'o \<Rightarrow> 'i imp \<Rightarrow> error + ('i, 'o) serverRequest" where
  "requestOfImp cfg other singleImp =
     (case customParamsOf singleImp of
        None \<Rightarrow> Inl TypeError
      | Some customParams \<Rightarrow>
          let url = (if debug customParams = Some True
                     then (case debug_url customParams of
                             None \<Rightarrow> DEBUG_URL
                           | Some u \<Rightarrow> if u \<noteq> [] then u else DEBUG_URL)
                     else URL);
              ident = getBidIdParameter_id customParams;
              data = \<lparr>locationId = ident, posall = ''SSPLOC'', sdktype = ''0'', hb = ''true'',
                      t_format = ''json'', payload_currency = getCurrencyType cfg,
                      pbver = ''$prebid.version$'', sdkname = ''prebidjs'',
                      adapterver = ADGENE_PREBID_VERSION, imark = ''1'',
                      pb_ortb2 = \<lparr>imp = [singleImp], otherParams = other\<rparr>\<rparr>
          in Inr \<lparr>req_method = ''POST'', req_url = url, req_data = data,
                  req_options = \<lparr>withCredentials = True, crossOrigin = True\<rparr>\<rparr>)"

text \<open>\<^verbatim>\<open>Array.prototype.map\<close> with a callback that may raise: the first error ends it.\<close>

fun mapE :: "('a \<Rightarrow> error + 'b) \<Rightarrow> 'a list \<Rightarrow> error + 'b list" where
  "mapE f [] = Inr []"
| "mapE f (x # xs) =
     (case f x of
        Inl e \<Rightarrow> Inl e
      | Inr y \<Rightarrow> (case mapE f xs of Inl e \<Rightarrow> Inl e | Inr ys \<Rightarrow> Inr (y # ys)))"

definition requestsOfORTB :: "config \<Rightarrow> ('i, 'o) ortb \<Rightarrow> error + ('i, 'o) serverRequest list" where
  "requestsOfORTB cfg pbOrtb2 = mapE (requestOfImp cfg (otherParams pbOrtb2)) (imp pbOrtb2)"

definition buildRequests ::
  "config \<Rightarrow> ('b bidRequest \<Rightarrow> 'i) \<Rightarrow> ('r \<Rightarrow> 'o) \<Rightarrow> 'b bidRequest list \<Rightarrow> 'r
     \<Rightarrow> error + ('i, 'o) serverRequest list" where
  "buildRequests cfg media envelope validBidRequests bidderRequest =
     requestsOfORTB cfg (toORTB media envelope validBidRequests bidderRequest)"

subsection \<open>Server responses and bids\<close>

text \<open>
  The response body, as \<^verbatim>\<open>interpretResponse\<close> reads it:
  \<^verbatim>\<open>{results: [{cpm, w, h, ad, vastxml, beacon, ttl}], dealid, adomain, native_ad: {assets:
  [{id, title: {text}, img: {url, h, w}, data: {value}}], link: {url, clicktrackers},
  imptrackers}, beaconurl, location_params: {option: {ad_type}}}\<close>.
  Every property may be missing. Numbers are rationals: the code only tests them against
  zero and passes them on.
\<close>

record adResult =
  res_cpm :: "rat option"
  res_w :: "rat option"
  res_h :: "rat option"
  res_ad :: "string option"
  res_vastxml :: "string option"
  res_beacon :: "string option"
  res_ttl :: "rat option"

record adOption =
  ad_type :: "string option"

record locationParams =
  lp_option :: "adOption option"

record assetTitle =
  title_text :: "string option"

record assetImg =
  img_url :: "string option"
  img_h :: "rat option"
  img_w :: "rat option"

record assetData =
  data_value :: "string option"

record asset =
  asset_id :: "int option"
  asset_title :: "assetTitle option"
  asset_img :: "assetImg option"
  asset_data :: "assetData option"

record nativeLink =
  link_url :: "string option"
  clicktrackers :: "string list option"

record nativeAd =
  assets :: "asset list option"
  link :: "nativeLink option"
  imptrackers :: "string list option"

record responseBody =
  results :: "adResult list option"
  dealid :: "string option"
  adomain :: "string list option"
  native_ad :: "nativeAd option"
  beaconurl :: "string option"
  location_params :: "locationParams option"

record serverResponse =
  body :: responseBody

text \<open>The bid that \<^verbatim>\<open>interpretResponse\<close> builds, and the native assets in it.\<close>

record image =
  image_url :: "string option"
  image_height :: "rat option"
  image_width :: "rat option"

record native =
  native_title :: "string option"
  native_image :: "image option"
  native_icon :: "image option"
  sponsoredBy :: "string option"
  native_body :: "string option"
  cta :: "string option"
  privacyLink :: "string option"
  clickUrl :: "string option"
  clickTrackers :: "string list option"
  impressionTrackers :: "string list option"

record meta =
  advertiserDomains :: "string list"

record bidResponse =
  requestId :: string
  cpm :: rat
  width :: rat
  height :: rat
  creativeId :: adResult
  dealId :: string
  currency :: string
  netRevenue :: bool
  ttl :: rat
  meta :: "meta option"
  native :: "native option"
  mediaType :: "string option"
  ad :: "string option"

definition NATIVE :: string where
  "NATIVE = ''native''"

subsection \<open>createAd\<close>

definition createAPVTag :: string where
  \<open>createAPVTag =
     ''<script type="text/javascript" id="apv" src="'' @ ''https://cdn.apvdr.com/js/VideoAd.min.js''
       @ ''"></script>''\<close>

definition createADGBrowserMTag :: string where
  \<open>createADGBrowserMTag =
     ''<script type="text/javascript" src="'' @ ''https://i.socdm.com/sdk/js/adg-browser-m.js''
       @ ''"></script>''\<close>

text \<open>\<open>esc\<close> stands for \<^verbatim>\<open>escapeUnsafeChars\<close> of the host's library, applied to
  \<^verbatim>\<open>JSON.stringify({s: targetId})\<close>.\<close>

definition insertVASTMethodForAPV :: "(string \<Rightarrow> string) \<Rightarrow> string \<Rightarrow> string \<Rightarrow> string" where
  \<open>insertVASTMethodForAPV esc targetId vastXml =
     ''<script type="text/javascript">(function(){ new APV.VideoAd(''
       @ esc (''{"s":'' @ jsonString targetId @ ''}'')
       @ '').load('' @ [CHR 0x27] @ stripNewlines vastXml @ [CHR 0x27] @ ''); })();</script>''\<close>

definition insertVASTMethodForADGBrowserM :: "string \<Rightarrow> string \<Rightarrow> string" where
  \<open>insertVASTMethodForADGBrowserM vastXml marginTop' =
     ''<script type="text/javascript">window.ADGBrowserM.init({vastXml: '' @ [CHR 0x27]
       @ stripNewlines vastXml @ [CHR 0x27] @ '', marginTop: '' @ [CHR 0x27] @ marginTop'
       @ [CHR 0x27] @ ''});</script>''\<close>

definition isUpperBillboard :: "locationParams option \<Rightarrow> bool" where
  "isUpperBillboard locationParams =
     (case locationParams of
        None \<Rightarrow> False
      | Some lp \<Rightarrow>
          (case lp_option lp of
             None \<Rightarrow> False
           | Some opt \<Rightarrow>
               (case ad_type opt of
                  None \<Rightarrow> False
                | Some ty \<Rightarrow> ty \<noteq> [] \<and> ty = ''upper_billboard'')))"

text \<open>The markup \<^verbatim>\<open>createAd\<close> holds in \<^verbatim>\<open>ad\<close> before its post-processing (lines 157 to 165).\<close>

definition createAdMarkup ::
  "(string \<Rightarrow> string) \<Rightarrow> adResult \<Rightarrow> locationParams option \<Rightarrow> params option \<Rightarrow> string
     \<Rightarrow> error + string option" where
  \<open>createAdMarkup esc adResult locationPrams bidParams reqId =
     (let ad0 = res_ad adResult
      in case res_vastxml adResult of
           None \<Rightarrow> Inr ad0
         | Some vastxml \<Rightarrow>
             if length vastxml > 0 then
               (if isUpperBillboard locationPrams then
                  (case bidParams of
                     None \<Rightarrow> Inl TypeError
                   | Some bp \<Rightarrow>
                       let mt = (case marginTop bp of
                                   None \<Rightarrow> ''0''
                                 | Some m \<Rightarrow> if m \<noteq> [] then m else ''0'')
                       in Inr (Some (''<body>'' @ createADGBrowserMTag
                                     @ insertVASTMethodForADGBrowserM vastxml mt @ ''</body>'')))
                else Inr (Some (''<body><div id="apvad-'' @ reqId @ ''"></div>'' @ createAPVTag
                                @ insertVASTMethodForAPV esc reqId vastxml @ ''</body>'')))
             else Inr ad0)\<close>

text \<open>\<^verbatim>\<open>appendChildToBody(ad, data)\<close>: the template \<^verbatim>\<open>`${data}</body>`\<close> prints a missing
  \<open>data\<close> as the text \<^verbatim>\<open>undefined\<close>; \<^verbatim>\<open>ad.replace\<close> raises when \<open>ad\<close> is missing.\<close>

definition appendChildToBody :: "string option \<Rightarrow> string option \<Rightarrow> error + string" where
  "appendChildToBody ad0 data =
     (case ad0 of
        None \<Rightarrow> Inl TypeError
      | Some a \<Rightarrow>
          Inr (replaceCloseBody [] a
                 ((case data of None \<Rightarrow> ''undefined'' | Some d \<Rightarrow> d) @ ''</body>'')))"

text \<open>\<^verbatim>\<open>removeWrapper\<close> gives \<^verbatim>\<open>false\<close>, here \<^term>\<open>None\<close>, when a tag is not found.\<close>

definition removeWrapper :: "string \<Rightarrow> string option" where
  "removeWrapper a =
     (let bodyIndex = indexOf a ''<body>'';
          lastBodyIndex = lastIndexOf a ''</body>''
      in if bodyIndex = - 1 \<or> lastBodyIndex = - 1 then None
         else Some (removeFirst (removeFirst (substr a bodyIndex lastBodyIndex) ''<body>'') ''</body>''))"

text \<open>The post-processing of \<^verbatim>\<open>createAd\<close> (lines 166 to 168): the beacon is appended, then
  the wrapper is removed when \<^verbatim>\<open>removeWrapper\<close> gives a text that is not empty.\<close>

definition finishAd :: "string option \<Rightarrow> string option \<Rightarrow> error + string" where
  "finishAd ad0 beacon =
     (case appendChildToBody ad0 beacon of
        Inl e \<Rightarrow> Inl e
      | Inr a \<Rightarrow>
          (case removeWrapper a of
             None \<Rightarrow> Inr a
           | Some inner \<Rightarrow> if inner \<noteq> [] then Inr inner else Inr a))"

definition createAd ::
  "(string \<Rightarrow> string) \<Rightarrow> adResult \<Rightarrow> locationParams option \<Rightarrow> params option \<Rightarrow> string
     \<Rightarrow> error + string" where
  "createAd esc adResult locationPrams bidParams reqId =
     (case createAdMarkup esc adResult locationPrams bidParams reqId of
        Inl e \<Rightarrow> Inl e
      | Inr ad0 \<Rightarrow> finishAd ad0 (res_beacon adResult))"

subsection \<open>isNative and createNativeAd\<close>

text \<open>\<^verbatim>\<open>body.native_ad && body.native_ad.assets.length > 0\<close>: reading \<^verbatim>\<open>length\<close> raises when
  \<^verbatim>\<open>native_ad\<close> has no \<^verbatim>\<open>assets\<close>.\<close>

definition isNative :: "responseBody \<Rightarrow> error + bool" where
  "isNative b =
     (case native_ad b of
        None \<Rightarrow> Inr False
      | Some na \<Rightarrow>
          (case assets na of
             None \<Rightarrow> Inl TypeError
           | Some as \<Rightarrow> Inr (length as > 0)))"

definition emptyNative :: native where
  "emptyNative =
     \<lparr>native_title = None, native_image = None, native_icon = None, sponsoredBy = None,
      native_body = None, cta = None, privacyLink = None, clickUrl = None,
      clickTrackers = None, impressionTrackers = None\<rparr>"

definition imageOf :: "assetImg \<Rightarrow> image" where
  "imageOf i = \<lparr>image_url = img_url i, image_height = img_h i, image_width = img_w i\<rparr>"

text \<open>One round of the loop over the assets: the \<^verbatim>\<open>switch\<close> on \<^verbatim>\<open>assets[i].id\<close>. Reading
  \<^verbatim>\<open>title.text\<close>, \<^verbatim>\<open>img.url\<close> or \<^verbatim>\<open>data.value\<close> raises when the asset has no such part.\<close>

definition decodeAsset :: "asset \<Rightarrow> native \<Rightarrow> error + native" where
  "decodeAsset a n =
     (if asset_id a = Some 1 then
        (case asset_title a of
           None \<Rightarrow> Inl TypeError
         | Some ti \<Rightarrow> Inr (n\<lparr>native_title := title_text ti\<rparr>))
      else if asset_id a = Some 2 then
        (case asset_img a of
           None \<Rightarrow> Inl TypeError
         | Some i \<Rightarrow> Inr (n\<lparr>native_image := Some (imageOf i)\<rparr>))
      else if asset_id a = Some 3 then
        (case asset_img a of
           None \<Rightarrow> Inl TypeError
         | Some i \<Rightarrow> Inr (n\<lparr>native_icon := Some (imageOf i)\<rparr>))
      else if asset_id a = Some 4 then
        (case asset_data a of
           None \<Rightarrow> Inl TypeError
         | Some d \<Rightarrow> Inr (n\<lparr>sponsoredBy := data_value d\<rparr>))
      else if asset_id a = Some 5 then
        (case asset_data a of
           None \<Rightarrow> Inl TypeError
         | Some d \<Rightarrow> Inr (n\<lparr>native_body := data_value d\<rparr>))
      else if asset_id a = Some 6 then
        (case asset_data a of
           None \<Rightarrow> Inl TypeError
         | Some d \<Rightarrow> Inr (n\<lparr>cta := data_value d\<rparr>))
      else if asset_id a = Some 502 then
        (case asset_data a of
           None \<Rightarrow> Inl TypeError
         | Some d \<Rightarrow>
             Inr (n\<lparr>privacyLink :=
                      Some (encodeURIComponent
                              (case data_value d of None \<Rightarrow> ''undefined'' | Some v \<Rightarrow> v))\<rparr>))
      else Inr n)"

fun decodeAssets :: "asset list \<Rightarrow> native \<Rightarrow> error + native" where
  "decodeAssets [] n = Inr n"
| "decodeAssets (a # as) n =
     (case decodeAsset a n of
        Inl e \<Rightarrow> Inl e
      | Inr n' \<Rightarrow> decodeAssets as n')"

definition createNativeAd :: "nativeAd option \<Rightarrow> string option \<Rightarrow> error + native" where
  "createNativeAd nativeAd beaconUrl =
     (case nativeAd of
        None \<Rightarrow> Inr emptyNative
      | Some na \<Rightarrow>
          (case assets na of
             None \<Rightarrow> Inl TypeError
           | Some as \<Rightarrow>
               if length as > 0 then
                 (case decodeAssets as emptyNative of
                    Inl e \<Rightarrow> Inl e
                  | Inr n \<Rightarrow>
                      (case link na of
                         None \<Rightarrow> Inl TypeError
                       | Some l \<Rightarrow>
                           let trackers = (case imptrackers na of None \<Rightarrow> [] | Some ts \<Rightarrow> ts);
                               trackers' = (case beaconUrl of
                                              None \<Rightarrow> trackers
                                            | Some u \<Rightarrow> if u \<noteq> [] then trackers @ [u] else trackers)
                           in Inr (n\<lparr>clickUrl := link_url l,
                                     clickTrackers :=
                                       Some (case clicktrackers l of None \<Rightarrow> [] | Some cs \<Rightarrow> cs),
                                     impressionTrackers := Some trackers'\<rparr>)))
               else Inr emptyNative))"

subsection \<open>interpretResponse\<close>

text \<open>\<^verbatim>\<open>x || d\<close> and \<^verbatim>\<open>x ? x : d\<close> on a number that may be missing: a missing number and zero
  both give the default.\<close>

definition numberOr :: "rat option \<Rightarrow> rat \<Rightarrow> rat" where
  "numberOr x d = (case x of None \<Rightarrow> d | Some v \<Rightarrow> if v \<noteq> 0 then v else d)"

text \<open>The bid as lines 116 to 131 build it, before its markup or its native assets are set.\<close>

definition bidResponseBase :: "config \<Rightarrow> responseBody \<Rightarrow> adResult \<Rightarrow> string \<Rightarrow> bidResponse" where
  "bidResponseBase cfg b adResult reqId =
     (let bid0 = \<lparr>requestId = reqId,
                    cpm = numberOr (res_cpm adResult) 0,
                    width = numberOr (res_w adResult) 1,
                    height = numberOr (res_h adResult) 1,
                    creativeId = adResult,
                    dealId = (case dealid b of None \<Rightarrow> [] | Some d \<Rightarrow> d),
                    currency = getCurrencyType cfg,
                    netRevenue = True,
                    ttl = numberOr (res_ttl adResult) 10,
                    meta = None, native = None, mediaType = None, ad = None\<rparr>
      in case adomain b of
           None \<Rightarrow> bid0
         | Some ds \<Rightarrow>
             if length ds \<noteq> 0 then bid0\<lparr>meta := Some \<lparr>advertiserDomains = ds\<rparr>\<rparr> else bid0)"

definition interpretResponse ::
  "config \<Rightarrow> (string \<Rightarrow> string) \<Rightarrow> serverResponse \<Rightarrow> ('i, 'o) serverRequest
     \<Rightarrow> error + bidResponse list" where
  "interpretResponse cfg esc serverResponse bidRequests =
     (let b = body serverResponse
      in case results b of
           None \<Rightarrow> Inr []
         | Some [] \<Rightarrow> Inr []
         | Some (adResult # _) \<Rightarrow>
             (case imp (pb_ortb2 (req_data bidRequests)) of
                [] \<Rightarrow> Inl TypeError
              | targetImp # _ \<Rightarrow>
                  let reqId = imp_id targetImp;
                      bid1 = bidResponseBase cfg b adResult reqId
                  in case isNative b of
                       Inl e \<Rightarrow> Inl e
                     | Inr True \<Rightarrow>
                         (case createNativeAd (native_ad b) (beaconurl b) of
                            Inl e \<Rightarrow> Inl e
                          | Inr n \<Rightarrow> Inr [bid1\<lparr>native := Some n, mediaType := Some NATIVE\<rparr>])
                     | Inr False \<Rightarrow>
                         (case ext targetImp of
                            None \<Rightarrow> Inl TypeError
                          | Some e \<Rightarrow>
                              (case createAd esc adResult (location_params b) (ext_params e) reqId of
                                 Inl err \<Rightarrow> Inl err
                               | Inr a \<Rightarrow> Inr [bid1\<lparr>ad := Some a\<rparr>]))))"

section \<open>Notions of the specification\<close>

text \<open>Two texts are equal but for the case of their letters.\<close>

definition toLowerChar :: "char \<Rightarrow> char" where
  "toLowerChar c =
     (case map_of (zip ''ABCDEFGHIJKLMNOPQRSTUVWXYZ'' ''abcdefghijklmnopqrstuvwxyz'') c of
        None \<Rightarrow> c
      | Some l \<Rightarrow> l)"

definition equalsIgnoreCase :: "string \<Rightarrow> string \<Rightarrow> bool" where
  "equalsIgnoreCase s t \<longleftrightarrow> map toLowerChar s = map toLowerChar t"


text \<open>A native asset whose \<^verbatim>\<open>id\<close> code asks for a part (\<^verbatim>\<open>title\<close>, \<^verbatim>\<open>img\<close> or \<^verbatim>\<open>data\<close>) that
  the asset does not have.\<close>

definition lacksTypedPart :: "asset \<Rightarrow> bool" where
  "lacksTypedPart a \<longleftrightarrow>
     (asset_id a = Some 1 \<and> asset_title a = None)
     \<or> ((asset_id a = Some 2 \<or> asset_id a = Some 3) \<and> asset_img a = None)
     \<or> ((asset_id a = Some 4 \<or> asset_id a = Some 5 \<or> asset_id a = Some 6 \<or> asset_id a = Some 502)
          \<and> asset_data a = None)"

section \<open>Example inputs\<close>

definition pageStart :: page where
  "pageStart = \<lparr>nlocvalue = 0, ajaxCalls = [], cbCalls = []\<rparr>"

definition noCurrency :: config where
  "noCurrency = \<lparr>adServerCurrency = None\<rparr>"

definition exampleParams :: params where
  "exampleParams = \<lparr>params_id = Some ''58278'', debug = None, debug_url = None, marginTop = None\<rparr>"

definition exampleBid :: "unit bidRequest" where
  "exampleBid = \<lparr>bidId = ''2f6ac468a9c15e'', bid_params = exampleParams, bid_rest = ()\<rparr>"

definition debugBid :: "unit bidRequest" where
  "debugBid =
     \<lparr>bidId = ''3a7bd579b0d26f'',
      bid_params = exampleParams\<lparr>debug := Some True, debug_url := Some ''https://example.test/adsv''\<rparr>,
      bid_rest = ()\<rparr>"

definition exampleImp :: "unit imp" where
  "exampleImp =
     \<lparr>imp_id = ''2f6ac468a9c15e'', ext = Some \<lparr>ext_params = Some exampleParams\<rparr>, imp_rest = ()\<rparr>"

definition exampleRequest :: "(unit, unit) serverRequest" where
  "exampleRequest =
     \<lparr>req_method = ''POST'', req_url = URL,
      req_data = \<lparr>locationId = ''58278'', posall = ''SSPLOC'', sdktype = ''0'', hb = ''true'',
                  t_format = ''json'', payload_currency = ''JPY'', pbver = ''$prebid.version$'',
                  sdkname = ''prebidjs'', adapterver = ADGENE_PREBID_VERSION, imark = ''1'',
                  pb_ortb2 = \<lparr>imp = [exampleImp], otherParams = ()\<rparr>\<rparr>,
      req_options = \<lparr>withCredentials = True, crossOrigin = True\<rparr>\<rparr>"

definition emptyResult :: adResult where
  "emptyResult =
     \<lparr>res_cpm = None, res_w = None, res_h = None, res_ad = None, res_vastxml = None,
      res_beacon = None, res_ttl = None\<rparr>"

definition emptyBody :: responseBody where
  "emptyBody =
     \<lparr>results = None, dealid = None, adomain = None, native_ad = None, beaconurl = None,
      location_params = None\<rparr>"

definition bannerResult :: adResult where
  "bannerResult = emptyResult\<lparr>res_ad := Some ''<body>X</body>'', res_beacon := Some ''B''\<rparr>"

definition bannerBody :: responseBody where
  "bannerBody = emptyBody\<lparr>results := Some [bannerResult]\<rparr>"

definition bannerBid :: bidResponse where
  "bannerBid =
     \<lparr>requestId = ''2f6ac468a9c15e'', cpm = 0, width = 1, height = 1, creativeId = bannerResult,
      dealId = [], currency = ''JPY'', netRevenue = True, ttl = 10, meta = None, native = None,
      mediaType = None, ad = Some ''XB''\<rparr>"




definition wrappedResult :: adResult where
  "wrappedResult =
     emptyResult\<lparr>res_ad := Some ''<html><body>X</body></html>'', res_beacon := Some ''B''\<rparr>"

definition noBeaconResult :: adResult where
  "noBeaconResult = emptyResult\<lparr>res_ad := Some ''<body>X</body>''\<rparr>"

definition nativeWithoutAssets :: nativeAd where
  "nativeWithoutAssets = \<lparr>assets = None, link = None, imptrackers = None\<rparr>"

definition brokenNativeBody :: responseBody where
  "brokenNativeBody = bannerBody\<lparr>native_ad := Some nativeWithoutAssets\<rparr>"

definition bareBody :: responseBody where
  "bareBody = emptyBody\<lparr>results := Some [emptyResult]\<rparr>"

section \<open>The source id\<close>

lemma getSrcId_unset:
  "getSrcId \<lparr>sourceid = Undefined\<rparr> = ''000''"
  "getSrcId \<lparr>sourceid = Null\<rparr> = ''000''"
  "getSrcId \<lparr>sourceid = Defined []\<rparr> = ''000''"
  by (simp_all add: getSrcId_def)

lemma getSrcId_wrong_length:
  "s \<noteq> [] \<Longrightarrow> length s \<noteq> 3 \<Longrightarrow> getSrcId \<lparr>sourceid = Defined s\<rparr> = ''001''"
  by (auto simp: getSrcId_def)

lemma getSrcId_three_characters:
  "length s = 3 \<Longrightarrow> getSrcId \<lparr>sourceid = Defined s\<rparr> = (if isHex s then s else ''002'')"
  by (auto simp: getSrcId_def)

lemma isHex_examples:
  "isHex ''1af''" "\<not> isHex ''zzz''" "\<not> isHex ''1aF''" "\<not> isHex ''00a''" "isHex ''-1a''" "isHex ''NaN''"
  by (simp_all add: isHex_def parseInt16_def stripSign_def stripHexPrefix_def isWhiteSpace_def
      hexValue_def toString16_def digits16.simps hexDigits_def)

text \<open>
  C4. The ladder of \<^verbatim>\<open>getSrcId\<close>: unset, null or empty gives \<^verbatim>\<open>000\<close>; a length other than 3 gives
  \<^verbatim>\<open>001\<close>; three characters that are not hexadecimal give \<^verbatim>\<open>002\<close>; three hexadecimal characters
  such as \<^verbatim>\<open>1aF\<close> are returned unchanged. The code does not return \<^verbatim>\<open>1aF\<close>: \<^verbatim>\<open>isHex\<close> compares
  the text with the lower-case form that \<^verbatim>\<open>parseInt\<close> and \<^verbatim>\<open>toString(16)\<close> print for its value,
  so a capital digit makes the test fail, and the result is \<^verbatim>\<open>002\<close>.
\<close>

theorem getSrcId_capital_hex_rejected:
  "getSrcId \<lparr>sourceid = Defined ''1aF''\<rparr> = ''002''"
  by (simp add: getSrcId_def isHex_def parseInt16_def stripSign_def stripHexPrefix_def
      isWhiteSpace_def hexValue_def toString16_def digits16.simps hexDigits_def)

section \<open>The currency\<close>

lemma toUpperChar_U: "toUpperChar c = CHR ''U'' \<longleftrightarrow> c = CHR ''u'' \<or> c = CHR ''U''"
  by (auto simp: toUpperChar_def split: if_splits)

lemma toUpperChar_S: "toUpperChar c = CHR ''S'' \<longleftrightarrow> c = CHR ''s'' \<or> c = CHR ''S''"
  by (auto simp: toUpperChar_def split: if_splits)

lemma toUpperChar_D: "toUpperChar c = CHR ''D'' \<longleftrightarrow> c = CHR ''d'' \<or> c = CHR ''D''"
  by (auto simp: toUpperChar_def split: if_splits)

lemma toLowerChar_u: "toLowerChar c = CHR ''u'' \<longleftrightarrow> c = CHR ''u'' \<or> c = CHR ''U''"
  by (auto simp: toLowerChar_def split: if_splits)

lemma toLowerChar_s: "toLowerChar c = CHR ''s'' \<longleftrightarrow> c = CHR ''s'' \<or> c = CHR ''S''"
  by (auto simp: toLowerChar_def split: if_splits)

lemma toLowerChar_d: "toLowerChar c = CHR ''d'' \<longleftrightarrow> c = CHR ''d'' \<or> c = CHR ''D''"
  by (auto simp: toLowerChar_def split: if_splits)

lemma toUpperCase_USD: "toUpperCase c = ''USD'' \<longleftrightarrow> equalsIgnoreCase c ''USD''"
proof -
  have l: "map toLowerChar ''USD'' = ''usd''"
    by (simp add: toLowerChar_def)
  have "map toUpperChar c = ''USD'' \<longleftrightarrow> map toLowerChar c = ''usd''"
    by (simp add: map_eq_Cons_conv toUpperChar_U toUpperChar_S toUpperChar_D
        toLowerChar_u toLowerChar_s toLowerChar_d)
  then show ?thesis
    unfolding toUpperCase_def equalsIgnoreCase_def l .
qed

text \<open>
  C5. \<^verbatim>\<open>getCurrencyType\<close> returns \<^verbatim>\<open>USD\<close> if and only if the option
  \<^verbatim>\<open>currency.adServerCurrency\<close> is set and equals \<^verbatim>\<open>USD\<close> but for the case of its letters; in
  every other case, the unset option included, it returns \<^verbatim>\<open>JPY\<close>.
\<close>

theorem getCurrencyType_USD_or_JPY:
  "getCurrencyType cfg =
     (case adServerCurrency cfg of
        None \<Rightarrow> ''JPY''
      | Some c \<Rightarrow> if equalsIgnoreCase c ''USD'' then ''USD'' else ''JPY'')"
proof (cases "adServerCurrency cfg")
  case None
  then show ?thesis
    by (simp add: getCurrencyType_def)
next
  case (Some c)
  have "equalsIgnoreCase c ''USD'' \<Longrightarrow> c \<noteq> []"
    by (auto simp: equalsIgnoreCase_def)
  with Some show ?thesis
    by (auto simp: getCurrencyType_def toUpperCase_USD)
qed

theorem getCurrencyType_USD_or_JPY_witness:
  "getCurrencyType \<lparr>adServerCurrency = Some ''usd''\<rparr> = ''USD''
   \<and> getCurrencyType \<lparr>adServerCurrency = Some ''EUR''\<rparr> = ''JPY''
   \<and> getCurrencyType \<lparr>adServerCurrency = None\<rparr> = ''JPY''"
  using getCurrencyType_USD_or_JPY [of "\<lparr>adServerCurrency = Some ''usd''\<rparr>"]
    getCurrencyType_USD_or_JPY [of "\<lparr>adServerCurrency = Some ''EUR''\<rparr>"]
    getCurrencyType_USD_or_JPY [of "\<lparr>adServerCurrency = None\<rparr>"]
  by (simp add: equalsIgnoreCase_def toLowerChar_def)

section \<open>The generated identifier\<close>








section \<open>The identity synchronisation\<close>

text \<open>
  C8, as amended. Every \<^verbatim>\<open>getId\<close> issues exactly one GET request to the fixed endpoint, with
  credentials disabled. When the transport calls the success handler, the indicator becomes 1 for
  status 200, 2 for status 204 and 0 for any other status, and the callback is called with the
  generated identifier. When the transport fails, no handler of \<^verbatim>\<open>getId\<close> runs: the indicator
  keeps its value and the callback is not called.
\<close>

theorem getId_sync:
  "ajaxCalls (getId rnd outcome pg) =
     ajaxCalls pg @ [\<lparr>ajaxUrl = ''https://spadsync.com/sync?sptoken='' @ snowflakeId rnd,
                      ajaxMethod = ''GET'', ajaxWithCredentials = False\<rparr>]
   \<and> (case outcome of
        Success syncrc \<Rightarrow>
          nlocvalue (getId rnd outcome pg) = (if syncrc = 200 then 1 else if syncrc = 204 then 2 else 0)
          \<and> cbCalls (getId rnd outcome pg) = cbCalls pg @ [\<lparr>idValue = snowflakeId rnd\<rparr>]
      | Failure \<Rightarrow>
          nlocvalue (getId rnd outcome pg) = nlocvalue pg
          \<and> cbCalls (getId rnd outcome pg) = cbCalls pg)"
  by (cases outcome) (simp_all add: getId_def getNlocvalue_def onSuccess_def)

theorem getId_sync_witness:
  "nlocvalue (getId (\<lambda>k. 15) (Success 204) pageStart) = 2
   \<and> cbCalls (getId (\<lambda>k. 15) (Success 204) pageStart) = [\<lparr>idValue = snowflakeId (\<lambda>k. 15)\<rparr>]
   \<and> length (ajaxCalls (getId (\<lambda>k. 15) (Success 204) pageStart)) = 1"
  using getId_sync [of "\<lambda>k. 15" "Success 204" pageStart]
  by (simp add: pageStart_def)

text \<open>C8 as stated fails: when the transport fails, the callback is not called, and an
  indicator left at 1 by an earlier synchronisation stays 1.\<close>

theorem getId_failure_no_callback:
  "cbCalls (getId (\<lambda>k. 0) Failure pageStart) = []
   \<and> nlocvalue (getId (\<lambda>k. 0) Failure (pageStart\<lparr>nlocvalue := 1\<rparr>)) = 1"
  by (simp add: getId_def getNlocvalue_def pageStart_def)

section \<open>Building the requests\<close>

lemma mapE_Inr: "mapE f xs = Inr ys \<Longrightarrow> list_all2 (\<lambda>x y. f x = Inr y) xs ys"
  by (induction xs arbitrary: ys) (auto split: sum.splits)

lemma mapE_defined: "(\<And>x. x \<in> set xs \<Longrightarrow> \<exists>y. f x = Inr y) \<Longrightarrow> \<exists>ys. mapE f xs = Inr ys"
proof (induction xs)
  case Nil
  then show ?case by simp
next
  case (Cons x xs)
  then obtain y ys where "f x = Inr y" and "mapE f xs = Inr ys"
    by (meson list.set_intros)
  then show ?case by simp
qed

lemma requestOfImp_Inr:
  assumes "requestOfImp cfg other i = Inr r"
  shows "\<exists>p. customParamsOf i = Some p
           \<and> req_method r = ''POST''
           \<and> req_options r = \<lparr>withCredentials = True, crossOrigin = True\<rparr>
           \<and> pb_ortb2 (req_data r) = \<lparr>imp = [i], otherParams = other\<rparr>
           \<and> req_url r = (if debug p = Some True
                           then (case debug_url p of None \<Rightarrow> DEBUG_URL
                                 | Some u \<Rightarrow> if u = [] then DEBUG_URL else u)
                           else URL)"
  using assms by (auto simp: requestOfImp_def Let_def split: option.splits)

lemma requestOfImp_defined:
  "customParamsOf i = Some p \<Longrightarrow> \<exists>r. requestOfImp cfg other i = Inr r"
  by (simp add: requestOfImp_def Let_def)

lemma converter_imp_params:
  "customParamsOf (converter_imp media b) = Some (bid_params b)"
  "imp_id (converter_imp media b) = bidId b"
  by (simp_all add: converter_imp_def buildImp_def deepSetValue_ext_params_def customParamsOf_def)

lemma requestsOfORTB_member:
  assumes "requestsOfORTB cfg pbOrtb2 = Inr reqs" and "req \<in> set reqs"
  shows "\<exists>singleImp p. singleImp \<in> set (imp pbOrtb2)
           \<and> customParamsOf singleImp = Some p
           \<and> pb_ortb2 (req_data req) = \<lparr>imp = [singleImp], otherParams = otherParams pbOrtb2\<rparr>"
proof -
  from assms(1) have l: "list_all2 (\<lambda>x y. requestOfImp cfg (otherParams pbOrtb2) x = Inr y) (imp pbOrtb2) reqs"
    by (simp add: requestsOfORTB_def mapE_Inr)
  from assms(2) obtain k where k: "k < length reqs" "req = reqs ! k"
    by (auto simp: in_set_conv_nth)
  from l k have "requestOfImp cfg (otherParams pbOrtb2) (imp pbOrtb2 ! k) = Inr req"
    and "imp pbOrtb2 ! k \<in> set (imp pbOrtb2)"
    by (auto simp: list_all2_conv_all_nth)
  then show ?thesis
    by (auto dest!: requestOfImp_Inr)
qed

lemma buildRequests_defined:
  "\<exists>reqs. buildRequests cfg media envelope bids br = Inr reqs"
  unfolding buildRequests_def requestsOfORTB_def toORTB_def converter_request_def
  by (rule mapE_defined) (auto intro: requestOfImp_defined converter_imp_params(1))



text \<open>
  C2. For a batch of N bid requests, \<^verbatim>\<open>buildRequests\<close> returns exactly N server requests. Each
  is a POST with \<^verbatim>\<open>withCredentials\<close> and \<^verbatim>\<open>crossOrigin\<close> enabled; its payload holds exactly one
  impression under \<^verbatim>\<open>pb_ortb2\<close>, the one of the bid request at the same position; its URL is the
  debug endpoint, or the \<^verbatim>\<open>debug_url\<close> of the request when that is supplied, when the
  impression's \<^verbatim>\<open>debug\<close> parameter is set, and the production endpoint otherwise.
\<close>

theorem buildRequests_one_request_per_bid:
  "\<exists>reqs. buildRequests cfg media envelope bids bidderRequest = Inr reqs
     \<and> length reqs = length bids
     \<and> (\<forall>i < length bids.
          req_method (reqs ! i) = ''POST''
          \<and> withCredentials (req_options (reqs ! i))
          \<and> crossOrigin (req_options (reqs ! i))
          \<and> (\<exists>singleImp. imp (pb_ortb2 (req_data (reqs ! i))) = [singleImp]
                \<and> imp_id singleImp = bidId (bids ! i)
                \<and> customParamsOf singleImp = Some (bid_params (bids ! i)))
          \<and> req_url (reqs ! i) =
              (if debug (bid_params (bids ! i)) = Some True
               then (case debug_url (bid_params (bids ! i)) of
                       None \<Rightarrow> ''https://api-test.scaleout.jp/adsv/v1''
                     | Some u \<Rightarrow> if u = [] then ''https://api-test.scaleout.jp/adsv/v1'' else u)
               else ''https://d.socdm.com/adsv/v1''))"
proof -
  obtain reqs where r: "buildRequests cfg media envelope bids bidderRequest = Inr reqs"
    using buildRequests_defined [of cfg media envelope bids bidderRequest] by (elim exE)
  then have l: "list_all2 (\<lambda>x y. requestOfImp cfg (envelope bidderRequest) x = Inr y)
                  (map (converter_imp media) bids) reqs"
    by (simp add: buildRequests_def requestsOfORTB_def mapE_Inr toORTB_def converter_request_def)
  then have len: "length reqs = length bids"
    by (auto dest: list_all2_lengthD)
  have each: "req_method (reqs ! i) = ''POST''
          \<and> withCredentials (req_options (reqs ! i))
          \<and> crossOrigin (req_options (reqs ! i))
          \<and> (\<exists>singleImp. imp (pb_ortb2 (req_data (reqs ! i))) = [singleImp]
                \<and> imp_id singleImp = bidId (bids ! i)
                \<and> customParamsOf singleImp = Some (bid_params (bids ! i)))
          \<and> req_url (reqs ! i) =
              (if debug (bid_params (bids ! i)) = Some True
               then (case debug_url (bid_params (bids ! i)) of
                       None \<Rightarrow> ''https://api-test.scaleout.jp/adsv/v1''
                     | Some u \<Rightarrow> if u = [] then ''https://api-test.scaleout.jp/adsv/v1'' else u)
               else ''https://d.socdm.com/adsv/v1'')"
    if "i < length bids" for i
  proof -
    from l that
    have "requestOfImp cfg (envelope bidderRequest) (converter_imp media (bids ! i)) = Inr (reqs ! i)"
      by (auto simp: list_all2_conv_all_nth)
    from requestOfImp_Inr [OF this] show ?thesis
      by (auto simp: converter_imp_params DEBUG_URL_def URL_def split: option.splits)
  qed
  from r len each show ?thesis
    by (intro exI [of _ reqs]) simp
qed

theorem buildRequests_one_request_per_bid_witness:
  "\<exists>reqs. buildRequests noCurrency (\<lambda>b. ()) (\<lambda>r. ()) [exampleBid, debugBid] () = Inr reqs
     \<and> length reqs = 2
     \<and> req_method (reqs ! 0) = ''POST''
     \<and> req_url (reqs ! 0) = ''https://d.socdm.com/adsv/v1''
     \<and> req_url (reqs ! 1) = ''https://example.test/adsv''"
proof -
  from buildRequests_one_request_per_bid [of noCurrency "\<lambda>b. ()" "\<lambda>r. ()" "[exampleBid, debugBid]" "()"]
  obtain reqs where r: "buildRequests noCurrency (\<lambda>b. ()) (\<lambda>r. ()) [exampleBid, debugBid] () = Inr reqs"
    and l: "length reqs = length [exampleBid, debugBid]"
    and a: "\<forall>i < length [exampleBid, debugBid].
          req_method (reqs ! i) = ''POST''
          \<and> req_url (reqs ! i) =
              (if debug (bid_params ([exampleBid, debugBid] ! i)) = Some True
               then (case debug_url (bid_params ([exampleBid, debugBid] ! i)) of
                       None \<Rightarrow> ''https://api-test.scaleout.jp/adsv/v1''
                     | Some u \<Rightarrow> if u = [] then ''https://api-test.scaleout.jp/adsv/v1'' else u)
               else ''https://d.socdm.com/adsv/v1'')"
    by (elim exE conjE) blast
  from a [rule_format, of 0] a [rule_format, of 1]
  have "req_method (reqs ! 0) = ''POST''"
    and "req_url (reqs ! 0) = ''https://d.socdm.com/adsv/v1''"
    and "req_url (reqs ! 1) = ''https://example.test/adsv''"
    by (simp_all add: exampleBid_def debugBid_def exampleParams_def)
  with r l show ?thesis
    by (intro exI [of _ reqs]) simp
qed

section \<open>The round trip of the impression id\<close>

lemma interpretResponse_Inr_requestId:
  assumes "interpretResponse cfg esc resp req = Inr bids"
    and "imp (pb_ortb2 (req_data req)) = [singleImp]"
  shows "\<forall>bid \<in> set bids. requestId bid = imp_id singleImp"
  using assms
  by (auto simp: interpretResponse_def bidResponseBase_def Let_def
      split: option.splits list.splits sum.splits bool.splits if_splits)

lemma interpretResponse_Inr_single:
  assumes "interpretResponse cfg esc resp req = Inr bids"
    and "results (body resp) = Some (r # rs)"
  shows "\<exists>bid. bids = [bid]"
  using assms
  by (auto simp: interpretResponse_def bidResponseBase_def Let_def
      split: option.splits list.splits sum.splits bool.splits if_splits)

text \<open>
  C1. Round trip: for every batch of bid requests, every request that \<^verbatim>\<open>buildRequests\<close> built
  from it and every server response with at least one result, the bid that
  \<^verbatim>\<open>interpretResponse\<close> returns carries as \<^verbatim>\<open>requestId\<close> the id of the single impression in the
  payload of that request. The id is read from the request, whatever the response holds.
\<close>

theorem interpretResponse_requestId_roundtrip:
  assumes "buildRequests cfg media envelope validBidRequests bidderRequest = Inr reqs"
    and "req \<in> set reqs"
    and "results (body resp) = Some (r # rs)"
    and "interpretResponse cfg' esc resp req = Inr bids"
  shows "\<exists>singleImp bid.
           imp (pb_ortb2 (req_data req)) = [singleImp]
           \<and> singleImp \<in> set (imp (toORTB media envelope validBidRequests bidderRequest))
           \<and> bids = [bid]
           \<and> requestId bid = imp_id singleImp"
proof -
  from assms(1,2) obtain singleImp
    where i: "singleImp \<in> set (imp (toORTB media envelope validBidRequests bidderRequest))"
      and p: "pb_ortb2 (req_data req) =
              \<lparr>imp = [singleImp],
               otherParams = otherParams (toORTB media envelope validBidRequests bidderRequest)\<rparr>"
    unfolding buildRequests_def by (auto dest!: requestsOfORTB_member)
  from p have q: "imp (pb_ortb2 (req_data req)) = [singleImp]"
    by simp
  from interpretResponse_Inr_single [OF assms(4,3)] obtain bid where b: "bids = [bid]"
    by (elim exE)
  from interpretResponse_Inr_requestId [OF assms(4) q] b have "requestId bid = imp_id singleImp"
    by simp
  with i q b show ?thesis
    by (intro exI [of _ singleImp] exI [of _ bid]) simp
qed


lemma bannerBid_example:
  "interpretResponse noCurrency esc \<lparr>body = bannerBody\<rparr> exampleRequest = Inr [bannerBid]"
  by (simp add: interpretResponse_def bidResponseBase_def bannerBody_def bannerResult_def emptyBody_def emptyResult_def
      exampleRequest_def exampleImp_def exampleParams_def noCurrency_def getCurrencyType_def
      numberOr_def isNative_def createAd_def createAdMarkup_def finishAd_def appendChildToBody_def
      closeBodyMatch_def isWhiteSpace_def removeWrapper_def substr_def bannerBid_def)

lemma exampleRequest_built:
  "buildRequests noCurrency (\<lambda>b. ()) (\<lambda>r. ()) [exampleBid] () = Inr [exampleRequest]"
  by (simp add: buildRequests_def requestsOfORTB_def toORTB_def converter_request_def
      converter_imp_def buildImp_def deepSetValue_ext_params_def requestOfImp_def
      customParamsOf_def exampleBid_def exampleRequest_def exampleImp_def exampleParams_def
      noCurrency_def getCurrencyType_def getBidIdParameter_id_def URL_def)

theorem interpretResponse_requestId_roundtrip_witness:
  "buildRequests noCurrency (\<lambda>b. ()) (\<lambda>r. ()) [exampleBid] () = Inr [exampleRequest]
   \<and> results (body \<lparr>body = bannerBody\<rparr>) = Some [bannerResult]
   \<and> interpretResponse noCurrency (\<lambda>s. s) \<lparr>body = bannerBody\<rparr> exampleRequest = Inr [bannerBid]
   \<and> requestId bannerBid = imp_id exampleImp
   \<and> imp (pb_ortb2 (req_data exampleRequest)) = [exampleImp]"
proof -
  have r: "results (body \<lparr>body = bannerBody\<rparr>) = Some (bannerResult # [])"
    by (simp add: bannerBody_def emptyBody_def)
  have m: "exampleRequest \<in> set [exampleRequest]"
    by simp
  from interpretResponse_requestId_roundtrip [OF exampleRequest_built m r bannerBid_example [of "\<lambda>s. s"]]
  obtain singleImp bid where "imp (pb_ortb2 (req_data exampleRequest)) = [singleImp]"
    and "[bannerBid] = [bid]" and "requestId bid = imp_id singleImp"
    by (elim exE conjE)
  moreover have "imp (pb_ortb2 (req_data exampleRequest)) = [exampleImp]"
    by (simp add: exampleRequest_def)
  ultimately have "requestId bannerBid = imp_id exampleImp"
    by simp
  with exampleRequest_built r bannerBid_example [of "\<lambda>s. s"] show ?thesis
    by (simp add: exampleRequest_def)
qed

section \<open>The markup of a banner\<close>






section \<open>The post-processing of a banner\<close>

text \<open>
  C6. After the beacon is appended before the closing body tag, only when the response has one,
  markup with a pair of body tags is cut down to the text between the first opening and the last
  closing tag. The code does neither in general. \<^verbatim>\<open>removeWrapper\<close> passes the position of the
  closing tag to \<^verbatim>\<open>substr\<close> as a length, so markup that does not start with the opening tag
  keeps a piece of the closing tag; and the template of \<^verbatim>\<open>appendChildToBody\<close> prints a missing
  beacon as the text \<^verbatim>\<open>undefined\<close>.
\<close>

theorem createAd_wrapper_examples:
  "createAd esc wrappedResult None None rid = Inr ''XB</body''
   \<and> createAd esc noBeaconResult None None rid = Inr ''Xundefined''"
  by (simp add: createAd_def createAdMarkup_def finishAd_def appendChildToBody_def
      closeBodyMatch_def isWhiteSpace_def removeWrapper_def substr_def wrappedResult_def
      noBeaconResult_def emptyResult_def)

section \<open>What interpretResponse returns, and when it raises\<close>

lemma error_eq [simp]: "(e :: error) = TypeError"
  by (cases e)

lemma finishAd_Some: "\<exists>a. finishAd (Some m) b = Inr a"
  by (simp add: finishAd_def appendChildToBody_def split: option.splits)

lemma finishAd_Some_returns: "finishAd (Some m) b \<noteq> Inl e"
  using finishAd_Some [of m b] by auto

lemma finishAd_None: "finishAd None b = Inl TypeError"
  by (simp add: finishAd_def appendChildToBody_def)

lemma createAd_raises_iff:
  "createAd esc r lp (Some p) rid = Inl TypeError \<longleftrightarrow>
     res_ad r = None \<and> (res_vastxml r = None \<or> res_vastxml r = Some [])"
proof (cases "\<exists>v. res_vastxml r = Some v \<and> v \<noteq> []")
  case True
  then obtain v where v: "res_vastxml r = Some v" "v \<noteq> []"
    by blast
  then have "\<exists>m. createAdMarkup esc r lp (Some p) rid = Inr (Some m)"
    by (simp add: createAdMarkup_def Let_def)
  then obtain m where "createAdMarkup esc r lp (Some p) rid = Inr (Some m)"
    by (elim exE)
  then show ?thesis
    using v by (auto simp: createAd_def finishAd_Some_returns)
next
  case False
  then have e: "res_vastxml r = None \<or> res_vastxml r = Some []"
    by (cases "res_vastxml r") auto
  then have "createAd esc r lp (Some p) rid = finishAd (res_ad r) (res_beacon r)"
    by (auto simp: createAd_def createAdMarkup_def)
  then show ?thesis
    using e by (cases "res_ad r") (auto simp: finishAd_Some_returns finishAd_None)
qed

lemma decodeAsset_raises_iff: "decodeAsset a n = Inl TypeError \<longleftrightarrow> lacksTypedPart a"
  by (auto simp: decodeAsset_def lacksTypedPart_def split: option.splits)

lemma decodeAssets_raises_iff:
  "decodeAssets as n = Inl TypeError \<longleftrightarrow> (\<exists>a \<in> set as. lacksTypedPart a)"
proof (induction as arbitrary: n)
  case Nil
  then show ?case by simp
next
  case (Cons a as)
  show ?case
  proof (cases "decodeAsset a n")
    case (Inl e)
    then show ?thesis
      using decodeAsset_raises_iff [of a n] by simp
  next
    case (Inr n')
    then have "\<not> lacksTypedPart a"
      using decodeAsset_raises_iff [of a n] by simp
    with Inr Cons.IH [of n'] show ?thesis
      by simp
  qed
qed

lemma createNativeAd_raises_iff:
  assumes "assets na = Some as" and "as \<noteq> []"
  shows "createNativeAd (Some na) b = Inl TypeError \<longleftrightarrow>
           (\<exists>a \<in> set as. lacksTypedPart a) \<or> link na = None"
proof (cases "decodeAssets as emptyNative")
  case (Inl e)
  then show ?thesis
    using assms decodeAssets_raises_iff [of as emptyNative] by (simp add: createNativeAd_def)
next
  case (Inr n)
  then have "\<not> (\<exists>a \<in> set as. lacksTypedPart a)"
    using decodeAssets_raises_iff [of as emptyNative] by simp
  with Inr assms show ?thesis
    by (simp add: createNativeAd_def Let_def split: option.splits)
qed

lemma interpretResponse_no_results:
  "results (body resp) = None \<or> results (body resp) = Some [] \<Longrightarrow>
     interpretResponse cfg esc resp req = Inr []"
  by (auto simp: interpretResponse_def)


lemma numberOr_cases: "numberOr x d = (case x of None \<Rightarrow> d | Some v \<Rightarrow> if v = 0 then d else v)"
  by (cases x) (simp_all add: numberOr_def)

lemma numberOr_zero: "numberOr x 0 = (case x of None \<Rightarrow> 0 | Some c \<Rightarrow> c)"
  by (cases x) (simp_all add: numberOr_def)



lemma bidResponseBase_requestId: "requestId (bidResponseBase cfg b r rid) = rid"
  by (cases "adomain b") (simp_all add: bidResponseBase_def Let_def)

lemma bidResponseBase_creativeId: "creativeId (bidResponseBase cfg b r rid) = r"
  by (cases "adomain b") (simp_all add: bidResponseBase_def Let_def)

lemma bidResponseBase_cpm:
  "cpm (bidResponseBase cfg b r rid) = (case res_cpm r of None \<Rightarrow> 0 | Some c \<Rightarrow> c)"
  by (cases "adomain b") (simp_all add: bidResponseBase_def Let_def numberOr_zero)

lemma bidResponseBase_width:
  "width (bidResponseBase cfg b r rid) =
     (case res_w r of None \<Rightarrow> 1 | Some x \<Rightarrow> if x = 0 then 1 else x)"
  by (cases "adomain b") (simp_all add: bidResponseBase_def Let_def numberOr_cases)

lemma bidResponseBase_height:
  "height (bidResponseBase cfg b r rid) =
     (case res_h r of None \<Rightarrow> 1 | Some x \<Rightarrow> if x = 0 then 1 else x)"
  by (cases "adomain b") (simp_all add: bidResponseBase_def Let_def numberOr_cases)

lemma bidResponseBase_ttl:
  "ttl (bidResponseBase cfg b r rid) =
     (case res_ttl r of None \<Rightarrow> 10 | Some x \<Rightarrow> if x = 0 then 10 else x)"
  by (cases "adomain b") (simp_all add: bidResponseBase_def Let_def numberOr_cases)

lemma bidResponseBase_meta:
  "meta (bidResponseBase cfg b r rid) =
     (case adomain b of
        None \<Rightarrow> None
      | Some ds \<Rightarrow> if ds = [] then None else Some \<lparr>advertiserDomains = ds\<rparr>)"
  by (cases "adomain b") (simp_all add: bidResponseBase_def Let_def)

lemmas bidResponseBase_fields =
  bidResponseBase_requestId bidResponseBase_creativeId bidResponseBase_cpm bidResponseBase_width
  bidResponseBase_height bidResponseBase_ttl bidResponseBase_meta


lemma bidResponseBase_results:
  "bidResponseBase cfg (b\<lparr>results := x\<rparr>) r rid = bidResponseBase cfg b r rid"
  by (simp add: bidResponseBase_def)

lemma isNative_results: "isNative (b\<lparr>results := x\<rparr>) = isNative b"
  by (simp add: isNative_def)

lemma interpretResponse_Cons:
  assumes "results (body resp) = Some (r # rs)"
    and "imp (pb_ortb2 (req_data req)) = i # rest"
  shows "interpretResponse cfg esc resp req =
     (case isNative (body resp) of
        Inl err \<Rightarrow> Inl err
      | Inr True \<Rightarrow>
          (case createNativeAd (native_ad (body resp)) (beaconurl (body resp)) of
             Inl err \<Rightarrow> Inl err
           | Inr n \<Rightarrow>
               Inr [(bidResponseBase cfg (body resp) r (imp_id i))
                      \<lparr>native := Some n, mediaType := Some NATIVE\<rparr>])
      | Inr False \<Rightarrow>
          (case ext i of
             None \<Rightarrow> Inl TypeError
           | Some e \<Rightarrow>
               (case createAd esc r (location_params (body resp)) (ext_params e) (imp_id i) of
                  Inl err \<Rightarrow> Inl err
                | Inr a \<Rightarrow> Inr [(bidResponseBase cfg (body resp) r (imp_id i))\<lparr>ad := Some a\<rparr>])))"
  using assms by (simp add: interpretResponse_def Let_def)

lemma interpretResponse_Nil:
  assumes "results (body resp) = Some (r # rs)"
    and "imp (pb_ortb2 (req_data req)) = []"
  shows "interpretResponse cfg esc resp req = Inl TypeError"
  using assms by (simp add: interpretResponse_def)

lemma interpretResponse_extra_results:
  assumes "results (body resp) = Some (r # rs)"
  shows "interpretResponse cfg esc resp req =
         interpretResponse cfg esc (resp\<lparr>body := (body resp)\<lparr>results := Some [r]\<rparr>\<rparr>) req"
proof (cases "imp (pb_ortb2 (req_data req))")
  case Nil
  with assms show ?thesis
    by (simp add: interpretResponse_Nil [of _ r])
next
  case (Cons i rest)
  have "results (body (resp\<lparr>body := (body resp)\<lparr>results := Some [r]\<rparr>\<rparr>)) = Some (r # [])"
    by simp
  from interpretResponse_Cons [OF this Cons, of cfg esc] interpretResponse_Cons [OF assms Cons, of cfg esc]
  show ?thesis
    by (simp add: bidResponseBase_results isNative_results
        cong: sum.case_cong option.case_cong bool.case_cong)
qed


lemma interpretResponse_error_iff:
  assumes "results (body resp) = Some (r # rs)"
    and "imp (pb_ortb2 (req_data req)) = i # rest"
    and "ext i = Some e"
    and "ext_params e = Some p"
  shows "interpretResponse cfg esc resp req = Inl TypeError \<longleftrightarrow>
           (case native_ad (body resp) of
              None \<Rightarrow> res_ad r = None \<and> (res_vastxml r = None \<or> res_vastxml r = Some [])
            | Some na \<Rightarrow>
                (case assets na of
                   None \<Rightarrow> True
                 | Some as \<Rightarrow>
                     if as = []
                     then res_ad r = None \<and> (res_vastxml r = None \<or> res_vastxml r = Some [])
                     else (\<exists>a \<in> set as. lacksTypedPart a) \<or> link na = None))"
proof -
  have u: "interpretResponse cfg esc resp req = Inl TypeError \<longleftrightarrow>
      (case isNative (body resp) of
         Inl err \<Rightarrow> True
       | Inr True \<Rightarrow>
           createNativeAd (native_ad (body resp)) (beaconurl (body resp)) = Inl TypeError
       | Inr False \<Rightarrow>
           createAd esc r (location_params (body resp)) (Some p) (imp_id i) = Inl TypeError)"
    unfolding interpretResponse_Cons [OF assms(1,2)]
    using assms(3,4) by (simp split: sum.splits bool.splits)
  show ?thesis
  proof (cases "native_ad (body resp)")
    case None
    then show ?thesis
      unfolding u by (simp add: isNative_def createAd_raises_iff)
  next
    case (Some na)
    show ?thesis
    proof (cases "assets na")
      case None
      with Some show ?thesis
        unfolding u by (simp add: isNative_def)
    next
      case as: (Some as)
      show ?thesis
      proof (cases "as = []")
        case True
        with Some as show ?thesis
          unfolding u by (simp add: isNative_def createAd_raises_iff)
      next
        case False
        with Some as show ?thesis
          unfolding u by (simp add: isNative_def createNativeAd_raises_iff)
      qed
    qed
  qed
qed

lemma interpretResponse_Inr_fields:
  assumes "results (body resp) = Some (r # rs)"
    and "interpretResponse cfg esc resp req = Inr bids"
  shows "\<exists>bid. bids = [bid]
           \<and> creativeId bid = r
           \<and> cpm bid = (case res_cpm r of None \<Rightarrow> 0 | Some c \<Rightarrow> c)
           \<and> width bid = (case res_w r of None \<Rightarrow> 1 | Some x \<Rightarrow> if x = 0 then 1 else x)
           \<and> height bid = (case res_h r of None \<Rightarrow> 1 | Some x \<Rightarrow> if x = 0 then 1 else x)
           \<and> ttl bid = (case res_ttl r of None \<Rightarrow> 10 | Some x \<Rightarrow> if x = 0 then 10 else x)
           \<and> meta bid = (case adomain (body resp) of
                           None \<Rightarrow> None
                         | Some ds \<Rightarrow> if ds = [] then None else Some \<lparr>advertiserDomains = ds\<rparr>)"
proof (cases "imp (pb_ortb2 (req_data req))")
  case Nil
  with assms show ?thesis
    by (simp add: interpretResponse_Nil [of _ r])
next
  case (Cons i rest)
  from assms(2) have
    "(\<exists>n. bids = [(bidResponseBase cfg (body resp) r (imp_id i))\<lparr>native := Some n, mediaType := Some NATIVE\<rparr>])
     \<or> (\<exists>a. bids = [(bidResponseBase cfg (body resp) r (imp_id i))\<lparr>ad := Some a\<rparr>])"
    unfolding interpretResponse_Cons [OF assms(1) Cons]
    by (auto split: sum.splits bool.splits option.splits)
  then show ?thesis
    by (auto simp: bidResponseBase_fields)
qed


lemma exampleRequest_imp:
  "imp (pb_ortb2 (req_data exampleRequest)) = exampleImp # []"
  "ext exampleImp = Some \<lparr>ext_params = Some exampleParams\<rparr>"
  by (simp_all add: exampleRequest_def exampleImp_def)

lemma interpretResponse_returns:
  assumes "results (body resp) = Some (r # rs)"
    and "imp (pb_ortb2 (req_data req)) = i # rest"
    and "ext i = Some e"
    and "ext_params e = Some p"
    and "native_ad (body resp) = None"
    and "res_ad r \<noteq> None \<or> (\<exists>v. res_vastxml r = Some v \<and> v \<noteq> [])"
  shows "\<exists>bid. interpretResponse cfg esc resp req = Inr [bid]"
proof -
  from assms have "interpretResponse cfg esc resp req \<noteq> Inl TypeError"
    using interpretResponse_error_iff [of resp r rs req i rest e p cfg esc] by auto
  then obtain bids where b: "interpretResponse cfg esc resp req = Inr bids"
    by (cases "interpretResponse cfg esc resp req") auto
  from interpretResponse_Inr_fields [OF assms(1) b] obtain bid where "bids = [bid]"
    by (elim exE conjE)
  with b show ?thesis
    by simp
qed

text \<open>
  C3, as amended. For a body without \<^verbatim>\<open>results\<close> or with an empty \<^verbatim>\<open>results\<close> array,
  \<^verbatim>\<open>interpretResponse\<close> returns the empty list. Otherwise only the first result counts; whenever
  the call returns, it returns exactly one bid, built from the first result, with \<^verbatim>\<open>cpm\<close> 0,
  \<^verbatim>\<open>width\<close> and \<^verbatim>\<open>height\<close> 1 and \<^verbatim>\<open>ttl\<close> 10 where the field is missing (or zero), and with
  \<^verbatim>\<open>meta.advertiserDomains\<close> exactly when the body has a non-empty \<^verbatim>\<open>adomain\<close>; and the call does
  return, for a request whose impression carries its parameters, when the body has no
  \<^verbatim>\<open>native_ad\<close> and the first result has \<^verbatim>\<open>ad\<close> markup or a non-empty \<^verbatim>\<open>vastxml\<close>.
\<close>

theorem interpretResponse_bids:
  "(results (body resp) = None \<or> results (body resp) = Some [] \<longrightarrow>
      interpretResponse cfg esc resp req = Inr [])
   \<and> (\<forall>r rs. results (body resp) = Some (r # rs) \<longrightarrow>
        interpretResponse cfg esc resp req =
          interpretResponse cfg esc (resp\<lparr>body := (body resp)\<lparr>results := Some [r]\<rparr>\<rparr>) req
        \<and> (\<forall>bids. interpretResponse cfg esc resp req = Inr bids \<longrightarrow>
              (\<exists>bid. bids = [bid]
                 \<and> creativeId bid = r
                 \<and> cpm bid = (case res_cpm r of None \<Rightarrow> 0 | Some c \<Rightarrow> c)
                 \<and> width bid = (case res_w r of None \<Rightarrow> 1 | Some x \<Rightarrow> if x = 0 then 1 else x)
                 \<and> height bid = (case res_h r of None \<Rightarrow> 1 | Some x \<Rightarrow> if x = 0 then 1 else x)
                 \<and> ttl bid = (case res_ttl r of None \<Rightarrow> 10 | Some x \<Rightarrow> if x = 0 then 10 else x)
                 \<and> meta bid = (case adomain (body resp) of
                                 None \<Rightarrow> None
                               | Some ds \<Rightarrow>
                                   if ds = [] then None else Some \<lparr>advertiserDomains = ds\<rparr>)))
        \<and> (\<forall>i rest e p.
              imp (pb_ortb2 (req_data req)) = i # rest \<and> ext i = Some e \<and> ext_params e = Some p
                \<and> native_ad (body resp) = None
                \<and> (res_ad r \<noteq> None \<or> (\<exists>v. res_vastxml r = Some v \<and> v \<noteq> [])) \<longrightarrow>
              (\<exists>bid. interpretResponse cfg esc resp req = Inr [bid])))"
  apply (intro conjI allI impI)
  subgoal by (rule interpretResponse_no_results)
  subgoal by (rule interpretResponse_extra_results)
  subgoal by (rule interpretResponse_Inr_fields)
  subgoal by (elim conjE) (rule interpretResponse_returns)
  done

text \<open>
  C9, as amended. A body without results gives the empty list, and a missing \<^verbatim>\<open>cpm\<close>, \<^verbatim>\<open>w\<close>,
  \<^verbatim>\<open>h\<close>, \<^verbatim>\<open>ttl\<close>, \<^verbatim>\<open>dealid\<close>, \<^verbatim>\<open>adomain\<close>, \<^verbatim>\<open>beacon\<close>, \<^verbatim>\<open>beaconurl\<close> or \<^verbatim>\<open>location_params\<close> never
  makes \<^verbatim>\<open>interpretResponse\<close> raise. For a request whose impression carries its parameters and
  a body with a result, it raises a \<^verbatim>\<open>TypeError\<close> in exactly these cases: \<^verbatim>\<open>native_ad\<close> is present
  without \<^verbatim>\<open>assets\<close>; \<^verbatim>\<open>native_ad\<close> has assets of which one lacks the part its \<^verbatim>\<open>id\<close> code asks
  for, or has no \<^verbatim>\<open>link\<close>; there is no native ad (\<^verbatim>\<open>native_ad\<close> missing, or its \<^verbatim>\<open>assets\<close> empty) and
  the first result has neither \<^verbatim>\<open>ad\<close> markup nor a non-empty \<^verbatim>\<open>vastxml\<close>.
\<close>

theorem interpretResponse_raises_iff:
  "(results (body resp) = None \<or> results (body resp) = Some [] \<longrightarrow>
      interpretResponse cfg esc resp req = Inr [])
   \<and> (\<forall>r rs i rest e p.
        results (body resp) = Some (r # rs) \<and> imp (pb_ortb2 (req_data req)) = i # rest
          \<and> ext i = Some e \<and> ext_params e = Some p \<longrightarrow>
        (interpretResponse cfg esc resp req = Inl TypeError \<longleftrightarrow>
           (case native_ad (body resp) of
              None \<Rightarrow> res_ad r = None \<and> (res_vastxml r = None \<or> res_vastxml r = Some [])
            | Some na \<Rightarrow>
                (case assets na of
                   None \<Rightarrow> True
                 | Some as \<Rightarrow>
                     if as = []
                     then res_ad r = None \<and> (res_vastxml r = None \<or> res_vastxml r = Some [])
                     else (\<exists>a \<in> set as. lacksTypedPart a) \<or> link na = None))))"
  apply (intro conjI allI impI)
  subgoal by (rule interpretResponse_no_results)
  subgoal by (elim conjE) (rule interpretResponse_error_iff)
  done

text \<open>C3 as stated fails: a body whose only result has no field at all has a result, and
  \<^verbatim>\<open>interpretResponse\<close> raises on it instead of returning one bid.\<close>

theorem interpretResponse_bare_result_raises:
  "results (body \<lparr>body = bareBody\<rparr>) = Some [emptyResult]
   \<and> interpretResponse noCurrency (\<lambda>s. s) \<lparr>body = bareBody\<rparr> exampleRequest = Inl TypeError"
  using interpretResponse_error_iff [of "\<lparr>body = bareBody\<rparr>" emptyResult "[]" exampleRequest
      exampleImp "[]" "\<lparr>ext_params = Some exampleParams\<rparr>" exampleParams noCurrency "\<lambda>s. s"]
  by (simp add: exampleRequest_imp bareBody_def emptyBody_def emptyResult_def)

text \<open>C9 as stated fails: a body whose \<^verbatim>\<open>native_ad\<close> has no \<^verbatim>\<open>assets\<close> makes
  \<^verbatim>\<open>interpretResponse\<close> raise.\<close>

theorem interpretResponse_native_without_assets_raises:
  "native_ad brokenNativeBody = Some nativeWithoutAssets
   \<and> assets nativeWithoutAssets = None
   \<and> interpretResponse noCurrency (\<lambda>s. s) \<lparr>body = brokenNativeBody\<rparr> exampleRequest = Inl TypeError"
  using interpretResponse_error_iff [of "\<lparr>body = brokenNativeBody\<rparr>" bannerResult "[]" exampleRequest
      exampleImp "[]" "\<lparr>ext_params = Some exampleParams\<rparr>" exampleParams noCurrency "\<lambda>s. s"]
  by (simp add: exampleRequest_imp brokenNativeBody_def bannerBody_def emptyBody_def
      nativeWithoutAssets_def)


theorem interpretResponse_bids_witness:
  "interpretResponse noCurrency (\<lambda>s. s) \<lparr>body = emptyBody\<rparr> exampleRequest = Inr []
   \<and> interpretResponse noCurrency (\<lambda>s. s) \<lparr>body = bannerBody\<rparr> exampleRequest = Inr [bannerBid]
   \<and> cpm bannerBid = 0 \<and> width bannerBid = 1 \<and> height bannerBid = 1 \<and> ttl bannerBid = 10
   \<and> meta bannerBid = None"
proof -
  note t1 = interpretResponse_bids [of "\<lparr>body = emptyBody\<rparr>" noCurrency "\<lambda>s. s" exampleRequest]
  note t2 = interpretResponse_bids [of "\<lparr>body = bannerBody\<rparr>" noCurrency "\<lambda>s. s" exampleRequest]
  from t1 have e: "interpretResponse noCurrency (\<lambda>s. s) \<lparr>body = emptyBody\<rparr> exampleRequest = Inr []"
    by (simp add: emptyBody_def)
  have r: "results (body \<lparr>body = bannerBody\<rparr>) = Some (bannerResult # [])"
    by (simp add: bannerBody_def emptyBody_def)
  from t2 r have "\<forall>bids. interpretResponse noCurrency (\<lambda>s. s) \<lparr>body = bannerBody\<rparr> exampleRequest = Inr bids \<longrightarrow>
              (\<exists>bid. bids = [bid]
                 \<and> cpm bid = (case res_cpm bannerResult of None \<Rightarrow> 0 | Some c \<Rightarrow> c)
                 \<and> width bid = (case res_w bannerResult of None \<Rightarrow> 1 | Some x \<Rightarrow> if x = 0 then 1 else x)
                 \<and> height bid = (case res_h bannerResult of None \<Rightarrow> 1 | Some x \<Rightarrow> if x = 0 then 1 else x)
                 \<and> ttl bid = (case res_ttl bannerResult of None \<Rightarrow> 10 | Some x \<Rightarrow> if x = 0 then 10 else x)
                 \<and> meta bid = (case adomain (body \<lparr>body = bannerBody\<rparr>) of
                                 None \<Rightarrow> None
                               | Some ds \<Rightarrow>
                                   if ds = [] then None else Some \<lparr>advertiserDomains = ds\<rparr>))"
    by blast
  with bannerBid_example [of "\<lambda>s. s"]
  have "cpm bannerBid = 0 \<and> width bannerBid = 1 \<and> height bannerBid = 1 \<and> ttl bannerBid = 10
        \<and> meta bannerBid = None"
    by (auto simp: bannerResult_def emptyResult_def bannerBody_def emptyBody_def)
  with e bannerBid_example [of "\<lambda>s. s"] show ?thesis
    by simp
qed

theorem interpretResponse_raises_iff_witness:
  "interpretResponse noCurrency (\<lambda>s. s) \<lparr>body = brokenNativeBody\<rparr> exampleRequest = Inl TypeError
   \<and> interpretResponse noCurrency (\<lambda>s. s) \<lparr>body = bannerBody\<rparr> exampleRequest \<noteq> Inl TypeError
   \<and> interpretResponse noCurrency (\<lambda>s. s) \<lparr>body = emptyBody\<rparr> exampleRequest = Inr []"
  using interpretResponse_raises_iff [of "\<lparr>body = brokenNativeBody\<rparr>" noCurrency "\<lambda>s. s" exampleRequest]
    interpretResponse_raises_iff [of "\<lparr>body = bannerBody\<rparr>" noCurrency "\<lambda>s. s" exampleRequest]
    interpretResponse_raises_iff [of "\<lparr>body = emptyBody\<rparr>" noCurrency "\<lambda>s. s" exampleRequest]
  by (simp add: exampleRequest_imp brokenNativeBody_def bannerBody_def emptyBody_def
      nativeWithoutAssets_def bannerResult_def emptyResult_def)

end
